theory Spec2Isabelle
  imports Main
begin

section \<open>JavaScript values reaching the component\<close>

text \<open>
  The catch clause of \<^verbatim>\<open>handleClearVscodeConfig\<close> receives a value of type
  \<^verbatim>\<open>unknown\<close>. The values modelled are \<^verbatim>\<open>undefined\<close>, \<^verbatim>\<open>null\<close>, booleans, strings,
  error instances (their \<^verbatim>\<open>name\<close> and \<^verbatim>\<open>message\<close>), ordinary objects, which inherit
  \<^verbatim>\<open>toString\<close> from \<^verbatim>\<open>Object.prototype\<close>, and objects without a prototype
  (\<^verbatim>\<open>Object.create(null)\<close>), which have no \<^verbatim>\<open>toString\<close> and no \<^verbatim>\<open>valueOf\<close>. Of an
  object only its own \<^verbatim>\<open>message\<close> property is kept (\<open>None\<close> when it has none).
  Strings are byte lists; a character outside ASCII stands as its UTF-8 bytes.
\<close>

datatype js_value =
    JUndefined
  | JNull
  | JBoolean bool
  | JString string
  | JError string string
  | JObject "js_value option"
  | JBareObject "js_value option"

text \<open>\<^verbatim>\<open>error?.message\<close>: the optional chain gives \<^verbatim>\<open>undefined\<close> on a nullish value,
  primitives have no such property.\<close>

fun js_message :: "js_value \<Rightarrow> js_value" where
  "js_message JUndefined = JUndefined"
| "js_message JNull = JUndefined"
| "js_message (JBoolean b) = JUndefined"
| "js_message (JString s) = JUndefined"
| "js_message (JError name m) = JString m"
| "js_message (JObject None) = JUndefined"
| "js_message (JObject (Some v)) = v"
| "js_message (JBareObject None) = JUndefined"
| "js_message (JBareObject (Some v)) = v"

text \<open>What the conversion of an object to a primitive throws when the object offers neither
  \<^verbatim>\<open>toString\<close> nor \<^verbatim>\<open>valueOf\<close>: a \<^verbatim>\<open>TypeError\<close> (the message is the engine's own
  wording).\<close>

definition cannotConvert :: js_value where
  "cannotConvert = JError ''TypeError'' ''Cannot convert object to primitive value''"

text \<open>\<^verbatim>\<open>String(v)\<close>: \<open>Inr\<close> the string, \<open>Inl\<close> the value thrown. An error instance prints
  as \<^verbatim>\<open>Error.prototype.toString\<close> does.\<close>

fun js_String :: "js_value \<Rightarrow> js_value + string" where
  "js_String JUndefined = Inr ''undefined''"
| "js_String JNull = Inr ''null''"
| "js_String (JBoolean b) = Inr (if b then ''true'' else ''false'')"
| "js_String (JString s) = Inr s"
| "js_String (JError name m) =
     Inr (if name = [] then m else if m = [] then name else name @ '': '' @ m)"
| "js_String (JObject p) = Inr ''[object Object]''"
| "js_String (JBareObject p) = Inl cannotConvert"

text \<open>The test of \<^verbatim>\<open>a ?? b\<close>: the right operand is evaluated only when the left one is
  nullish.\<close>

fun nullish :: "js_value \<Rightarrow> bool" where
  "nullish JUndefined = True"
| "nullish JNull = True"
| "nullish v = False"

text \<open>\<^verbatim>\<open>!!x\<close> on an optional boolean.\<close>

fun truthy :: "bool option \<Rightarrow> bool" where
  "truthy None = False"
| "truthy (Some b) = b"

section \<open>Settings, partial updates, notifications\<close>

text \<open>
  The fields of \<^verbatim>\<open>SettingsFormState\<close> this component reads. Its declaration lives in
  \<^verbatim>\<open>@/hooks/useSettings\<close>; the types follow the uses below: the five flags read
  through \<^verbatim>\<open>!!\<close> and the path read through \<^verbatim>\<open>??\<close> are optional, the flag passed
  as it is to \<^verbatim>\<open>checked\<close> is a plain boolean.
\<close>

record SettingsFormState =
  launchOnStartup :: "bool option"
  silentStartup :: "bool option"
  enableClaudePluginIntegration :: "bool option"
  enableVscodeClaudeSync :: "bool option"
  skipClaudeOnboarding :: "bool option"
  minimizeToTrayOnClose :: bool
  vscodeSettingsPath :: "string option"

text \<open>An object literal, as the list of its keys and values: the argument of
  \<^verbatim>\<open>onChange\<close> (a \<^verbatim>\<open>Partial<SettingsFormState>\<close>) and the options of \<^verbatim>\<open>t\<close>.\<close>

type_synonym js_object = "(string \<times> js_value) list"

text \<open>The translation lookup \<^verbatim>\<open>t(key, options)\<close> of react-i18next is a parameter,
  taken to return a string.\<close>

type_synonym translator = "string \<Rightarrow> js_object \<Rightarrow> string"

datatype toast = ToastSuccess string | ToastError string

text \<open>The two default texts of the source, as UTF-8.\<close>

definition clearSuccessDefault :: string where
  "clearSuccessDefault = ''VS Code Claude '' @
     [CHR 0xE6, CHR 0x8F, CHR 0x92, CHR 0xE4, CHR 0xBB, CHR 0xB6, CHR 0xE9, CHR 0x85, CHR 0x8D,
      CHR 0xE7, CHR 0xBD, CHR 0xAE, CHR 0xE5, CHR 0xB7, CHR 0xB2, CHR 0xE6, CHR 0xB8, CHR 0x85,
      CHR 0xE9, CHR 0x99, CHR 0xA4]"

definition clearFailedDefault :: string where
  "clearFailedDefault =
     [CHR 0xE6, CHR 0xB8, CHR 0x85, CHR 0xE9, CHR 0x99, CHR 0xA4, CHR 0xE5, CHR 0xA4, CHR 0xB1,
      CHR 0xE8, CHR 0xB4, CHR 0xA5] @ '': {{error}}''"

section \<open>The component's state\<close>

text \<open>
  \<open>settings\<close> is the prop handed down by the parent and \<open>isClearing\<close> the
  \<^verbatim>\<open>useState\<close> cell. The other fields log what the component does to its
  collaborators: the arguments of every \<^verbatim>\<open>onChange\<close> call, every toast, the number of
  calls of \<^verbatim>\<open>settingsApi.clearVscodeClaudeConfig\<close> and how many of them have not
  settled yet.
\<close>

record component_state =
  settings :: SettingsFormState
  isClearing :: bool
  inFlight :: nat
  clearCalls :: nat
  toasts :: "toast list"
  onChangeCalls :: "js_object list"

definition mount :: "SettingsFormState \<Rightarrow> component_state" where
  "mount s = \<lparr>settings = s, isClearing = False, inFlight = 0, clearCalls = 0,
              toasts = [], onChangeCalls = []\<rparr>"

definition setIsClearing :: "bool \<Rightarrow> component_state \<Rightarrow> component_state" where
  "setIsClearing b st = st\<lparr>isClearing := b\<rparr>"

definition toast_success :: "string \<Rightarrow> component_state \<Rightarrow> component_state" where
  "toast_success text st = st\<lparr>toasts := toasts st @ [ToastSuccess text]\<rparr>"

definition toast_error :: "string \<Rightarrow> component_state \<Rightarrow> component_state" where
  "toast_error text st = st\<lparr>toasts := toasts st @ [ToastError text]\<rparr>"

definition onChange :: "js_object \<Rightarrow> component_state \<Rightarrow> component_state" where
  "onChange updates st = st\<lparr>onChangeCalls := onChangeCalls st @ [updates]\<rparr>"

definition clearVscodeClaudeConfig :: "component_state \<Rightarrow> component_state" where
  "clearVscodeClaudeConfig st =
     st\<lparr>inFlight := Suc (inFlight st), clearCalls := Suc (clearCalls st)\<rparr>"

section \<open>handleClearVscodeConfig\<close>

text \<open>
  The async function runs in two parts, split at its one \<^verbatim>\<open>await\<close>: up to the call of
  the external operation, and from the moment the awaited promise settles. The second part
  is the rest of the \<^verbatim>\<open>try\<close> block, the \<^verbatim>\<open>catch\<close> block and the \<^verbatim>\<open>finally\<close> block,
  in this order; it returns how the function completes together with the state.
\<close>

datatype settled = Resolved | Rejected js_value

datatype completion = Returned | Threw js_value

definition handleClearVscodeConfig_begin :: "component_state \<Rightarrow> component_state" where
  "handleClearVscodeConfig_begin st = clearVscodeClaudeConfig (setIsClearing True st)"

text \<open>The two texts shown: \<^verbatim>\<open>t(key, {defaultValue})\<close> and
  \<^verbatim>\<open>t(key, {defaultValue, error})\<close>; and the value the source passes as \<^verbatim>\<open>error\<close>,
  \<^verbatim>\<open>(error as Error)?.message ?? String(error)\<close>, whose evaluation throws when the
  conversion does. The argument is evaluated before \<^verbatim>\<open>t\<close> and \<^verbatim>\<open>toast.error\<close> are
  called, so a throw there leaves the \<^verbatim>\<open>catch\<close> block with no notification made.\<close>

definition successText :: "translator \<Rightarrow> string" where
  "successText t =
     t ''settings.clearVscodeClaudeConfigSuccess''
       [(''defaultValue'', JString clearSuccessDefault)]"

definition failedText :: "translator \<Rightarrow> js_value \<Rightarrow> string" where
  "failedText t param =
     t ''settings.clearVscodeClaudeConfigFailed''
       [(''defaultValue'', JString clearFailedDefault), (''error'', param)]"

definition errorParam :: "js_value \<Rightarrow> js_value + js_value" where
  "errorParam error =
     (if nullish (js_message error)
      then (case js_String error of Inl thrown \<Rightarrow> Inl thrown | Inr s \<Rightarrow> Inr (JString s))
      else Inr (js_message error))"

definition handleClearVscodeConfig_resume ::
  "translator \<Rightarrow> settled \<Rightarrow> component_state \<Rightarrow> completion \<times> component_state" where
  "handleClearVscodeConfig_resume t r st0 =
     (let st = st0\<lparr>inFlight := inFlight st0 - 1\<rparr>;
          (c1, st1) =
            (case r of
               Resolved \<Rightarrow> (Returned, toast_success (successText t) st)
             | Rejected error \<Rightarrow> (Threw error, st));
          (c2, st2) =
            (case c1 of
               Returned \<Rightarrow> (Returned, st1)
             | Threw error \<Rightarrow>
                 (case errorParam error of
                    Inl thrown \<Rightarrow> (Threw thrown, st1)
                  | Inr param \<Rightarrow> (Returned, toast_error (failedText t param) st1)))
      in (c2, setIsClearing False st2))"

text \<open>One whole run, given how the external operation settles.\<close>

definition handleClearVscodeConfig ::
  "translator \<Rightarrow> settled \<Rightarrow> component_state \<Rightarrow> completion \<times> component_state" where
  "handleClearVscodeConfig t r st =
     handleClearVscodeConfig_resume t r (handleClearVscodeConfig_begin st)"

section \<open>Rendering\<close>

text \<open>
  The controls of the returned tree, in document order. A toggle row carries the key of
  its title, its \<^verbatim>\<open>checked\<close> prop and its \<^verbatim>\<open>onCheckedChange\<close> callback; the input
  its \<^verbatim>\<open>value\<close> and its \<^verbatim>\<open>onChange\<close> callback (applied to \<^verbatim>\<open>e.target.value\<close>); the
  button its \<^verbatim>\<open>disabled\<close> prop, its \<^verbatim>\<open>onClick\<close> being \<^verbatim>\<open>handleClearVscodeConfig\<close>.
  A callback is given by the argument it passes to \<^verbatim>\<open>onChange\<close>. \<open>Panel\<close> is the
  conditional block under the sync toggle; purely presentational wrappers, icons and
  paragraphs are left out.
\<close>

datatype widget =
    ToggleRow string bool "bool \<Rightarrow> js_object"
  | Input string "string \<Rightarrow> js_object"
  | Button bool
  | Panel "widget list"

definition pathValue :: "string option \<Rightarrow> string" where
  "pathValue p = (case p of None \<Rightarrow> [] | Some s \<Rightarrow> s)"

definition pathOnChange :: "string \<Rightarrow> js_object" where
  "pathOnChange v = [(''vscodeSettingsPath'', if v = [] then JUndefined else JString v)]"

definition render :: "SettingsFormState \<Rightarrow> bool \<Rightarrow> widget list" where
  "render s clearing =
     [ToggleRow ''settings.launchOnStartup'' (truthy (launchOnStartup s))
        (\<lambda>v. [(''launchOnStartup'', JBoolean v)]),
      ToggleRow ''settings.silentStartup'' (truthy (silentStartup s))
        (\<lambda>v. [(''silentStartup'', JBoolean v)]),
      ToggleRow ''settings.enableClaudePluginIntegration''
        (truthy (enableClaudePluginIntegration s))
        (\<lambda>v. [(''enableClaudePluginIntegration'', JBoolean v)]),
      ToggleRow ''settings.enableVscodeClaudeSync'' (truthy (enableVscodeClaudeSync s))
        (\<lambda>v. [(''enableVscodeClaudeSync'', JBoolean v)])]
     @ (if truthy (enableVscodeClaudeSync s)
        then [Panel [Input (pathValue (vscodeSettingsPath s)) pathOnChange, Button clearing]]
        else [])
     @ [ToggleRow ''settings.skipClaudeOnboarding'' (truthy (skipClaudeOnboarding s))
          (\<lambda>v. [(''skipClaudeOnboarding'', JBoolean v)]),
        ToggleRow ''settings.minimizeToTray'' (minimizeToTrayOnClose s)
          (\<lambda>v. [(''minimizeToTrayOnClose'', JBoolean v)])]"

definition view :: "component_state \<Rightarrow> widget list" where
  "view st = render (settings st) (isClearing st)"

fun findToggle :: "string \<Rightarrow> widget list \<Rightarrow> (bool \<times> (bool \<Rightarrow> js_object)) option" where
  "findToggle k [] = None"
| "findToggle k (ToggleRow title checked cb # ws) =
     (if title = k then Some (checked, cb) else findToggle k ws)"
| "findToggle k (w # ws) = findToggle k ws"

fun findPanel :: "widget list \<Rightarrow> widget list option" where
  "findPanel [] = None"
| "findPanel (Panel inner # ws) = Some inner"
| "findPanel (w # ws) = findPanel ws"

fun findInput :: "widget list \<Rightarrow> (string \<times> (string \<Rightarrow> js_object)) option" where
  "findInput [] = None"
| "findInput (Input v cb # ws) = Some (v, cb)"
| "findInput (w # ws) = findInput ws"

fun findButton :: "widget list \<Rightarrow> bool option" where
  "findButton [] = None"
| "findButton (Button d # ws) = Some d"
| "findButton (w # ws) = findButton ws"

definition panelWidgets :: "widget list \<Rightarrow> widget list" where
  "panelWidgets v = (case findPanel v of None \<Rightarrow> [] | Some inner \<Rightarrow> inner)"

definition panelVisible :: "widget list \<Rightarrow> bool" where
  "panelVisible v = (findPanel v \<noteq> None)"

definition toggleChecked :: "string \<Rightarrow> widget list \<Rightarrow> bool option" where
  "toggleChecked k v = map_option fst (findToggle k v)"

definition inputValue :: "widget list \<Rightarrow> string option" where
  "inputValue v = map_option fst (findInput (panelWidgets v))"

definition buttonDisabled :: "widget list \<Rightarrow> bool option" where
  "buttonDisabled v = findButton (panelWidgets v)"

section \<open>User interaction and the component's life\<close>

datatype user_event = UserToggle string | UserType string | UserClick

text \<open>Modelled from the spec: the shared widget \<^verbatim>\<open>ToggleRow\<close>
  (\<^verbatim>\<open>@/components/ui/toggle-row\<close>) is not among the sources. It is "a labeled on/off UI
  control bound to a boolean setting": a user interaction calls \<^verbatim>\<open>onCheckedChange\<close>
  once, with the opposite of the \<^verbatim>\<open>checked\<close> it is rendered with.\<close>

definition toggleRow_interact :: "bool \<times> (bool \<Rightarrow> js_object) \<Rightarrow> js_object" where
  "toggleRow_interact row = (snd row) (\<not> fst row)"

text \<open>Modelled from the spec: the shared widget \<^verbatim>\<open>Button\<close> (\<^verbatim>\<open>@/components/ui/button\<close>)
  is not among the sources. "While it is pending, the triggering control is disabled to
  prevent re-entrant invocation": a click reaches \<^verbatim>\<open>onClick\<close> only when the button is
  rendered and not disabled.\<close>

definition button_fires :: "widget list \<Rightarrow> bool" where
  "button_fires v = (buttonDisabled v = Some False)"

text \<open>
  React renders again after every event that changes state or props, so a user event acts
  on what is rendered in the current state: a control that is not rendered cannot be used.
  Text entered in the input reaches its \<^verbatim>\<open>onChange\<close> as \<^verbatim>\<open>e.target.value\<close>. A click
  that fires runs \<^verbatim>\<open>handleClearVscodeConfig\<close> up to its \<^verbatim>\<open>await\<close>.
\<close>

fun on_user :: "user_event \<Rightarrow> component_state \<Rightarrow> component_state" where
  "on_user (UserToggle k) st =
     (case findToggle k (view st) of
        None \<Rightarrow> st
      | Some row \<Rightarrow> onChange (toggleRow_interact row) st)"
| "on_user (UserType text) st =
     (case findInput (panelWidgets (view st)) of
        None \<Rightarrow> st
      | Some (v, cb) \<Rightarrow> onChange (cb text) st)"
| "on_user UserClick st =
     (if button_fires (view st) then handleClearVscodeConfig_begin st else st)"

text \<open>The external operation settles: the suspended run, if there is one, goes on.\<close>

definition on_settle :: "translator \<Rightarrow> settled \<Rightarrow> component_state \<Rightarrow> component_state" where
  "on_settle t r st =
     (if inFlight st = 0 then st else snd (handleClearVscodeConfig_resume t r st))"

text \<open>Everything that can happen during one mount of the component; the parent may hand
  down a new settings record at any time.\<close>

datatype event = User user_event | Settles settled | ParentRenders SettingsFormState

fun step :: "translator \<Rightarrow> component_state \<Rightarrow> event \<Rightarrow> component_state" where
  "step t st (User u) = on_user u st"
| "step t st (Settles r) = on_settle t r st"
| "step t st (ParentRenders s) = st\<lparr>settings := s\<rparr>"

definition run :: "translator \<Rightarrow> SettingsFormState \<Rightarrow> event list \<Rightarrow> component_state" where
  "run t s es = foldl (step t) (mount s) es"

section \<open>Notions the properties are stated with\<close>

text \<open>The in-flight flag is set exactly while one invocation of the external operation has
  not settled, and no second one is under way.\<close>

definition flag_tracks_flight :: "component_state \<Rightarrow> bool" where
  "flag_tracks_flight st = (inFlight st = (if isClearing st then 1 else 0))"


text \<open>\<^verbatim>\<open>text.includes(part)\<close>.\<close>

fun js_includes :: "string \<Rightarrow> string \<Rightarrow> bool" where
  "js_includes [] part = (part = [])"
| "js_includes (c # cs) part = (take (length part) (c # cs) = part \<or> js_includes cs part)"

text \<open>The optional path of the settings record as a JavaScript value.\<close>

fun pathField :: "string option \<Rightarrow> js_value" where
  "pathField None = JUndefined"
| "pathField (Some p) = JString p"

text \<open>The six boolean flags of the settings record: the key of each in the record, the
  title key of its toggle row in \<open>render\<close>, and the value the record holds for it.\<close>

datatype flag =
    LaunchOnStartup
  | SilentStartup
  | EnableClaudePluginIntegration
  | EnableVscodeClaudeSync
  | SkipClaudeOnboarding
  | MinimizeToTrayOnClose

fun flagKey :: "flag \<Rightarrow> string" where
  "flagKey LaunchOnStartup = ''launchOnStartup''"
| "flagKey SilentStartup = ''silentStartup''"
| "flagKey EnableClaudePluginIntegration = ''enableClaudePluginIntegration''"
| "flagKey EnableVscodeClaudeSync = ''enableVscodeClaudeSync''"
| "flagKey SkipClaudeOnboarding = ''skipClaudeOnboarding''"
| "flagKey MinimizeToTrayOnClose = ''minimizeToTrayOnClose''"

fun flagTitle :: "flag \<Rightarrow> string" where
  "flagTitle LaunchOnStartup = ''settings.launchOnStartup''"
| "flagTitle SilentStartup = ''settings.silentStartup''"
| "flagTitle EnableClaudePluginIntegration = ''settings.enableClaudePluginIntegration''"
| "flagTitle EnableVscodeClaudeSync = ''settings.enableVscodeClaudeSync''"
| "flagTitle SkipClaudeOnboarding = ''settings.skipClaudeOnboarding''"
| "flagTitle MinimizeToTrayOnClose = ''settings.minimizeToTray''"

fun flagStored :: "SettingsFormState \<Rightarrow> flag \<Rightarrow> bool option" where
  "flagStored s LaunchOnStartup = launchOnStartup s"
| "flagStored s SilentStartup = silentStartup s"
| "flagStored s EnableClaudePluginIntegration = enableClaudePluginIntegration s"
| "flagStored s EnableVscodeClaudeSync = enableVscodeClaudeSync s"
| "flagStored s SkipClaudeOnboarding = skipClaudeOnboarding s"
| "flagStored s MinimizeToTrayOnClose = Some (minimizeToTrayOnClose s)"

text \<open>
  Two sample translators to run the component with. The first one returns the text of the
  \<^verbatim>\<open>defaultValue\<close> option (the key when there is none) with every \<^verbatim>\<open>{{name}}\<close>
  replaced by the string form of the option of that name (nothing for a value with no
  string form). The second argument of \<open>interpolate\<close> is the name read so far inside a
  placeholder, \<open>None\<close> outside of one. The second translator ignores its options and
  returns the key.
\<close>

definition optionText :: "js_object \<Rightarrow> string \<Rightarrow> string" where
  "optionText opts name =
     (case map_of opts name of
        None \<Rightarrow> ''{{'' @ name @ ''}}''
      | Some v \<Rightarrow> (case js_String v of Inl thrown \<Rightarrow> [] | Inr s \<Rightarrow> s))"

fun interpolate :: "js_object \<Rightarrow> string option \<Rightarrow> string \<Rightarrow> string" where
  "interpolate opts None (c # d # cs) =
     (if c = CHR ''{'' \<and> d = CHR ''{'' then interpolate opts (Some []) cs
      else c # interpolate opts None (d # cs))"
| "interpolate opts None cs = cs"
| "interpolate opts (Some name) (c # d # cs) =
     (if c = CHR ''}'' \<and> d = CHR ''}'' then optionText opts name @ interpolate opts None cs
      else interpolate opts (Some (name @ [c])) (d # cs))"
| "interpolate opts (Some name) cs = ''{{'' @ name @ cs"

definition defaultTranslator :: translator where
  "defaultTranslator key opts =
     (case map_of opts ''defaultValue'' of
        Some (JString template) \<Rightarrow> interpolate opts None template
      | _ \<Rightarrow> key)"

definition keyTranslator :: translator where
  "keyTranslator key opts = key"

definition sampleSettings :: SettingsFormState where
  "sampleSettings =
     \<lparr>launchOnStartup = Some True, silentStartup = None,
      enableClaudePluginIntegration = Some False, enableVscodeClaudeSync = Some True,
      skipClaudeOnboarding = None, minimizeToTrayOnClose = False,
      vscodeSettingsPath = Some ''/home/u/.config/Code/User/settings.json''\<rparr>"

section \<open>Shapes of the results\<close>

lemma begin_state:
  "handleClearVscodeConfig_begin st =
     st\<lparr>isClearing := True, inFlight := Suc (inFlight st), clearCalls := Suc (clearCalls st)\<rparr>"
  by (simp add: handleClearVscodeConfig_begin_def clearVscodeClaudeConfig_def setIsClearing_def)

lemma resume_resolved:
  "handleClearVscodeConfig_resume t Resolved st =
     (Returned,
      st\<lparr>inFlight := inFlight st - 1,
         toasts := toasts st @ [ToastSuccess (successText t)],
         isClearing := False\<rparr>)"
  by (simp add: handleClearVscodeConfig_resume_def toast_success_def setIsClearing_def)

lemma resume_rejected:
  "handleClearVscodeConfig_resume t (Rejected error) st =
     (case errorParam error of
        Inl thrown \<Rightarrow> (Threw thrown, st\<lparr>inFlight := inFlight st - 1, isClearing := False\<rparr>)
      | Inr param \<Rightarrow>
          (Returned,
           st\<lparr>inFlight := inFlight st - 1,
              toasts := toasts st @ [ToastError (failedText t param)],
              isClearing := False\<rparr>))"
  by (simp add: handleClearVscodeConfig_resume_def toast_error_def setIsClearing_def
      split: sum.splits)

lemmas resume_simps = resume_resolved resume_rejected

lemma panel_of_render:
  "findPanel (render s clearing) =
     (if truthy (enableVscodeClaudeSync s)
      then Some [Input (pathValue (vscodeSettingsPath s)) pathOnChange, Button clearing]
      else None)"
  by (simp add: render_def)

lemma button_of_render:
  "buttonDisabled (render s clearing) =
     (if truthy (enableVscodeClaudeSync s) then Some clearing else None)"
  by (simp add: buttonDisabled_def panelWidgets_def panel_of_render)

lemma input_of_render:
  "findInput (panelWidgets (render s clearing)) =
     (if truthy (enableVscodeClaudeSync s)
      then Some (pathValue (vscodeSettingsPath s), pathOnChange)
      else None)"
  by (simp add: panelWidgets_def panel_of_render)

lemma truthy_iff: "truthy b = (b = Some True)"
  by (cases b) auto

lemma toggle_of_render:
  "findToggle (flagTitle f) (render s clearing) =
     Some (truthy (flagStored s f), \<lambda>v. [(flagKey f, JBoolean v)])"
  by (cases f) (simp_all add: render_def)

subsection \<open>At most one invocation in flight\<close>

lemma tracks_mount: "flag_tracks_flight (mount s)"
  by (simp add: flag_tracks_flight_def mount_def)

lemma tracks_on_user: "flag_tracks_flight st \<Longrightarrow> flag_tracks_flight (on_user u st)"
proof (cases u)
  case (UserToggle k)
  assume "flag_tracks_flight st"
  then show ?thesis using UserToggle
    by (simp add: flag_tracks_flight_def onChange_def split: option.splits)
next
  case (UserType entered)
  assume "flag_tracks_flight st"
  then show ?thesis using UserType
    by (simp add: flag_tracks_flight_def onChange_def split: option.splits prod.splits)
next
  case UserClick
  assume inv: "flag_tracks_flight st"
  show ?thesis
  proof (cases "button_fires (view st)")
    case True
    then have "\<not> isClearing st"
      by (auto simp: button_fires_def view_def button_of_render split: if_splits)
    with inv have "inFlight st = 0"
      by (simp add: flag_tracks_flight_def)
    then show ?thesis using UserClick True
      by (simp add: flag_tracks_flight_def begin_state)
  next
    case False
    then show ?thesis using UserClick inv by simp
  qed
qed

lemma tracks_on_settle: "flag_tracks_flight st \<Longrightarrow> flag_tracks_flight (on_settle t r st)"
  by (cases r)
    (auto simp: flag_tracks_flight_def on_settle_def resume_simps split: if_splits sum.splits)

lemma tracks_step: "flag_tracks_flight st \<Longrightarrow> flag_tracks_flight (step t st e)"
proof (cases e)
  case (ParentRenders s)
  assume "flag_tracks_flight st"
  then show ?thesis using ParentRenders by (simp add: flag_tracks_flight_def)
qed (simp_all add: tracks_on_user tracks_on_settle)

lemma tracks_foldl: "flag_tracks_flight st \<Longrightarrow> flag_tracks_flight (foldl (step t) st es)"
  by (induction es arbitrary: st) (simp_all add: tracks_step)

lemma tracks_run: "flag_tracks_flight (run t s es)"
  by (simp add: run_def tracks_foldl tracks_mount)

lemma click_while_clearing: "isClearing st \<Longrightarrow> on_user UserClick st = st"
  by (simp add: button_fires_def view_def button_of_render)


lemma whole_resolved:
  "handleClearVscodeConfig t Resolved st =
     (Returned,
      st\<lparr>clearCalls := Suc (clearCalls st),
         toasts := toasts st @ [ToastSuccess (successText t)],
         isClearing := False\<rparr>)"
  by (simp add: handleClearVscodeConfig_def begin_state resume_resolved)

lemma whole_rejected:
  "handleClearVscodeConfig t (Rejected error) st =
     (case errorParam error of
        Inl thrown \<Rightarrow>
          (Threw thrown, st\<lparr>clearCalls := Suc (clearCalls st), isClearing := False\<rparr>)
      | Inr param \<Rightarrow>
          (Returned,
           st\<lparr>clearCalls := Suc (clearCalls st),
              toasts := toasts st @ [ToastError (failedText t param)],
              isClearing := False\<rparr>))"
  by (simp add: handleClearVscodeConfig_def begin_state resume_rejected split: sum.splits)

lemma message_is_param:
  "js_message error = JString m \<Longrightarrow> errorParam error = Inr (JString m)"
  by (simp add: errorParam_def)


lemma sample_failed_text:
  "failedText defaultTranslator (JString m) = take 12 clearFailedDefault @ '': '' @ m"
  by (simp add: failedText_def defaultTranslator_def clearFailedDefault_def optionText_def)

section \<open>The clear-configuration action\<close>

text \<open>
  C1, as the claim states it, fails: the text of the notification is whatever the
  translation lookup returns, and a lookup that does not put its \<^verbatim>\<open>error\<close> parameter
  into the result gives a failure notification without "disk full" in it.
\<close>

theorem clear_rejected_disk_full_counterexample:
  "js_message (JError ''Error'' ''disk full'') = JString ''disk full''
   \<and> toasts (snd (handleClearVscodeConfig keyTranslator
         (Rejected (JError ''Error'' ''disk full'')) (mount sampleSettings))) =
       [ToastError ''settings.clearVscodeClaudeConfigFailed'']
   \<and> \<not> js_includes ''settings.clearVscodeClaudeConfigFailed'' ''disk full''"
proof -
  have "errorParam (JError ''Error'' ''disk full'') = Inr (JString ''disk full'')"
    by (simp add: message_is_param)
  then show ?thesis
    by (simp add: whole_rejected failedText_def keyTranslator_def mount_def)
qed

text \<open>
  C1, amended. When the external clear operation rejects with an error whose message is
  "disk full", the run returns normally (the rejection is caught and goes no further), the
  external operation has been called once (no retry), exactly one notification is added
  and it is a failure notification, whose text is what the translation lookup returns for
  the failure key with the parameter \<^verbatim>\<open>error\<close> set to "disk full", and the button is not
  disabled afterwards: it shows enabled wherever the sync sub-panel is rendered.
\<close>

theorem clear_rejected_disk_full:
  assumes "js_message error = JString ''disk full''"
  shows "fst (handleClearVscodeConfig t (Rejected error) st) = Returned
       \<and> toasts (snd (handleClearVscodeConfig t (Rejected error) st)) =
           toasts st @
             [ToastError
                (t ''settings.clearVscodeClaudeConfigFailed''
                   [(''defaultValue'', JString clearFailedDefault),
                    (''error'', JString ''disk full'')])]
       \<and> clearCalls (snd (handleClearVscodeConfig t (Rejected error) st)) = Suc (clearCalls st)
       \<and> inFlight (snd (handleClearVscodeConfig t (Rejected error) st)) = inFlight st
       \<and> isClearing (snd (handleClearVscodeConfig t (Rejected error) st)) = False
       \<and> buttonDisabled (view (snd (handleClearVscodeConfig t (Rejected error) st))) =
           (if enableVscodeClaudeSync (settings st) = Some True then Some False else None)"
proof -
  have "errorParam error = Inr (JString ''disk full'')"
    using assms by (rule message_is_param)
  then show ?thesis
    by (simp add: whole_rejected failedText_def view_def button_of_render truthy_iff)
qed

theorem clear_rejected_disk_full_witness:
  "js_message (JError ''Error'' ''disk full'') = JString ''disk full''
   \<and> fst (handleClearVscodeConfig defaultTranslator (Rejected (JError ''Error'' ''disk full''))
          (mount sampleSettings)) = Returned
   \<and> toasts (snd (handleClearVscodeConfig defaultTranslator
          (Rejected (JError ''Error'' ''disk full'')) (mount sampleSettings))) =
       [ToastError (take 12 clearFailedDefault @ '': disk full'')]
   \<and> clearCalls (snd (handleClearVscodeConfig defaultTranslator
          (Rejected (JError ''Error'' ''disk full'')) (mount sampleSettings))) = 1
   \<and> isClearing (snd (handleClearVscodeConfig defaultTranslator
          (Rejected (JError ''Error'' ''disk full'')) (mount sampleSettings))) = False
   \<and> buttonDisabled (view (snd (handleClearVscodeConfig defaultTranslator
          (Rejected (JError ''Error'' ''disk full'')) (mount sampleSettings)))) = Some False"
proof -
  have m: "js_message (JError ''Error'' ''disk full'') = JString ''disk full''"
    by simp
  have shown: "defaultTranslator ''settings.clearVscodeClaudeConfigFailed''
      [(''defaultValue'', JString clearFailedDefault), (''error'', JString ''disk full'')] =
      take 12 clearFailedDefault @ '': disk full''"
    using sample_failed_text [of "''disk full''"] by (simp add: failedText_def)
  have sync: "enableVscodeClaudeSync (settings (mount sampleSettings)) = Some True"
    by (simp add: mount_def sampleSettings_def)
  from clear_rejected_disk_full [OF m, of defaultTranslator "mount sampleSettings"] m
  show ?thesis
    unfolding shown sync by (simp add: mount_def)
qed

text \<open>
  C3. When the external clear operation resolves, the run returns normally, exactly one
  notification is added and it is the success notification (so no failure notification),
  the external operation has been called once, and the button is not disabled afterwards:
  it shows enabled wherever the sync sub-panel is rendered.
\<close>

theorem clear_resolved:
  "fst (handleClearVscodeConfig t Resolved st) = Returned
   \<and> toasts (snd (handleClearVscodeConfig t Resolved st)) =
       toasts st @ [ToastSuccess (successText t)]
   \<and> clearCalls (snd (handleClearVscodeConfig t Resolved st)) = Suc (clearCalls st)
   \<and> inFlight (snd (handleClearVscodeConfig t Resolved st)) = inFlight st
   \<and> isClearing (snd (handleClearVscodeConfig t Resolved st)) = False
   \<and> buttonDisabled (view (snd (handleClearVscodeConfig t Resolved st))) =
       (if panelVisible (view st) then Some False else None)"
  by (simp add: whole_resolved view_def button_of_render panelVisible_def panel_of_render)

text \<open>
  C4. The in-flight flag is false after the async clear operation, however the external
  call settles (resolved, or rejected with any value), both for a whole run and for the
  part of a run that follows the \<^verbatim>\<open>await\<close>, started in any state.
\<close>

theorem flag_reset_on_every_exit:
  "isClearing (snd (handleClearVscodeConfig t r st)) = False
   \<and> isClearing (snd (handleClearVscodeConfig_resume t r st)) = False"
  by (cases r) (simp_all add: whole_resolved whole_rejected resume_simps split: sum.splits)




text \<open>
  C2. In every state the component reaches during one mount (any sequence of user
  events, settlements of the external operation and re-renders by the parent), at most one
  invocation of the external clear operation is in flight, and one is in flight exactly
  when the in-flight flag is set. While the flag is set there is no enabled button (it is
  rendered disabled, or not rendered at all), and a click changes nothing: no second call
  of the external operation starts.
\<close>

theorem one_clear_in_flight:
  "inFlight (run t s es) \<le> 1
   \<and> isClearing (run t s es) = (inFlight (run t s es) = 1)
   \<and> (isClearing (run t s es) \<longrightarrow>
        buttonDisabled (view (run t s es)) =
          (if panelVisible (view (run t s es)) then Some True else None)
        \<and> on_user UserClick (run t s es) = run t s es)"
proof -
  have inv: "flag_tracks_flight (run t s es)"
    by (rule tracks_run)
  have "inFlight (run t s es) \<le> 1" and "isClearing (run t s es) = (inFlight (run t s es) = 1)"
    using inv by (simp_all add: flag_tracks_flight_def split: if_splits)
  moreover have "isClearing (run t s es) \<longrightarrow>
        buttonDisabled (view (run t s es)) =
          (if panelVisible (view (run t s es)) then Some True else None)"
    by (simp add: view_def button_of_render panelVisible_def panel_of_render)
  moreover have "isClearing (run t s es) \<longrightarrow> on_user UserClick (run t s es) = run t s es"
    using click_while_clearing by blast
  ultimately show ?thesis by blast
qed

theorem one_clear_in_flight_witness:
  "isClearing (run defaultTranslator sampleSettings [User UserClick])
   \<and> inFlight (run defaultTranslator sampleSettings [User UserClick]) = 1
   \<and> buttonDisabled (view (run defaultTranslator sampleSettings [User UserClick])) = Some True
   \<and> on_user UserClick (run defaultTranslator sampleSettings [User UserClick]) =
       run defaultTranslator sampleSettings [User UserClick]
   \<and> clearCalls (run defaultTranslator sampleSettings [User UserClick, User UserClick]) = 1"
proof -
  have r: "run defaultTranslator sampleSettings [User UserClick] =
      (mount sampleSettings)\<lparr>isClearing := True, inFlight := 1, clearCalls := 1\<rparr>"
    by (simp add: run_def button_fires_def view_def button_of_render begin_state mount_def
        sampleSettings_def)
  have c: "isClearing (run defaultTranslator sampleSettings [User UserClick])"
    unfolding r by simp
  have p: "panelVisible (view (run defaultTranslator sampleSettings [User UserClick]))"
    unfolding r by (simp add: view_def panelVisible_def panel_of_render mount_def sampleSettings_def)
  have twice: "run defaultTranslator sampleSettings [User UserClick, User UserClick] =
      on_user UserClick (run defaultTranslator sampleSettings [User UserClick])"
    by (simp add: run_def)
  from one_clear_in_flight [of defaultTranslator sampleSettings "[User UserClick]"] c p
  have "inFlight (run defaultTranslator sampleSettings [User UserClick]) = 1"
    and "buttonDisabled (view (run defaultTranslator sampleSettings [User UserClick])) = Some True"
    and same: "on_user UserClick (run defaultTranslator sampleSettings [User UserClick]) =
       run defaultTranslator sampleSettings [User UserClick]"
    by simp_all
  moreover have "clearCalls (run defaultTranslator sampleSettings [User UserClick, User UserClick]) = 1"
  proof -
    have "clearCalls (run defaultTranslator sampleSettings [User UserClick, User UserClick]) =
        clearCalls (run defaultTranslator sampleSettings [User UserClick])"
      by (simp only: twice same)
    also have "\<dots> = 1"
      unfolding r by simp
    finally show ?thesis .
  qed
  ultimately show ?thesis using c by simp
qed

section \<open>The controls\<close>

text \<open>
  C5. For each of the six boolean flags, the flag's toggle row is rendered with
  \<^verbatim>\<open>checked\<close> equal to the truth value of the stored flag, and a user interaction with it
  adds exactly one call of the change callback, whose argument has the flag's key as its
  single key, set to the negation of that rendered value; nothing else changes.
\<close>

theorem toggle_calls_onChange_once:
  "toggleChecked (flagTitle f) (view st) = Some (truthy (flagStored (settings st) f))
   \<and> on_user (UserToggle (flagTitle f)) st =
       st\<lparr>onChangeCalls := onChangeCalls st @
            [[(flagKey f, JBoolean (\<not> truthy (flagStored (settings st) f)))]]\<rparr>"
  by (simp add: toggleChecked_def view_def toggle_of_render toggleRow_interact_def onChange_def)

text \<open>
  C6. Whenever the sync flag is true the path field is rendered, showing the stored path,
  and every string entered into it adds exactly one call of the change callback and changes
  nothing else; the argument of that call has the single key \<^verbatim>\<open>vscodeSettingsPath\<close>, set
  to the entered string when it is not empty and to \<^verbatim>\<open>undefined\<close> when it is. Entering
  "foo" calls it with "foo", entering the empty string calls it with \<^verbatim>\<open>undefined\<close>.
\<close>

theorem path_field_onChange:
  assumes "enableVscodeClaudeSync (settings st) = Some True"
  shows "inputValue (view st) = Some (pathValue (vscodeSettingsPath (settings st)))
       \<and> on_user (UserType entered) st =
           st\<lparr>onChangeCalls := onChangeCalls st @
                [[(''vscodeSettingsPath'',
                   if entered = [] then JUndefined else JString entered)]]\<rparr>
       \<and> on_user (UserType ''foo'') st =
           st\<lparr>onChangeCalls := onChangeCalls st @ [[(''vscodeSettingsPath'', JString ''foo'')]]\<rparr>
       \<and> on_user (UserType []) st =
           st\<lparr>onChangeCalls := onChangeCalls st @ [[(''vscodeSettingsPath'', JUndefined)]]\<rparr>"
  using assms
  by (simp add: inputValue_def view_def input_of_render onChange_def pathOnChange_def)

theorem path_field_onChange_witness:
  "enableVscodeClaudeSync (settings (mount sampleSettings)) = Some True
   \<and> inputValue (view (mount sampleSettings)) = Some ''/home/u/.config/Code/User/settings.json''
   \<and> onChangeCalls (on_user (UserType ''foo'') (mount sampleSettings)) =
       [[(''vscodeSettingsPath'', JString ''foo'')]]
   \<and> onChangeCalls (on_user (UserType []) (mount sampleSettings)) =
       [[(''vscodeSettingsPath'', JUndefined)]]
   \<and> onChangeCalls (on_user (UserType ''a b'') (mount sampleSettings)) =
       [[(''vscodeSettingsPath'', JString ''a b'')]]"
proof -
  have sync: "enableVscodeClaudeSync (settings (mount sampleSettings)) = Some True"
    by (simp add: mount_def sampleSettings_def)
  have stored: "vscodeSettingsPath (settings (mount sampleSettings)) =
      Some ''/home/u/.config/Code/User/settings.json''"
    and none: "onChangeCalls (mount sampleSettings) = []"
    by (simp_all add: mount_def sampleSettings_def)
  from path_field_onChange [OF sync, of "''a b''"] sync
  show ?thesis
    by (simp add: stored none pathValue_def)
qed

text \<open>
  C7. For every settings record, the sync sub-panel is rendered if and only if
  \<^verbatim>\<open>enableVscodeClaudeSync\<close> is true, and so are the path field and the clear button,
  which stand nowhere else.
\<close>

theorem sub_panel_iff_sync:
  "panelVisible (render s clearing) = (enableVscodeClaudeSync s = Some True)
   \<and> (inputValue (render s clearing) \<noteq> None) = (enableVscodeClaudeSync s = Some True)
   \<and> (buttonDisabled (render s clearing) \<noteq> None) = (enableVscodeClaudeSync s = Some True)
   \<and> findInput (render s clearing) = None
   \<and> findButton (render s clearing) = None"
proof -
  have "panelVisible (render s clearing) = (enableVscodeClaudeSync s = Some True)"
    by (simp add: panelVisible_def panel_of_render truthy_iff)
  moreover have "(inputValue (render s clearing) \<noteq> None) = (enableVscodeClaudeSync s = Some True)"
    by (simp add: inputValue_def input_of_render truthy_iff)
  moreover have "(buttonDisabled (render s clearing) \<noteq> None) = (enableVscodeClaudeSync s = Some True)"
    by (simp add: button_of_render truthy_iff)
  moreover have "findInput (render s clearing) = None" and "findButton (render s clearing) = None"
    by (simp_all add: render_def)
  ultimately show ?thesis by simp
qed

text \<open>
  C8. No user event and no settlement of the external operation changes the settings
  record the component was given; the clear action (the click, the settlement, a whole
  run of the handler) adds no call of the change callback.
\<close>

theorem settings_never_modified:
  "settings (on_user u st) = settings st
   \<and> settings (on_settle t r st) = settings st
   \<and> settings (snd (handleClearVscodeConfig t r st)) = settings st
   \<and> onChangeCalls (on_user UserClick st) = onChangeCalls st
   \<and> onChangeCalls (on_settle t r st) = onChangeCalls st
   \<and> onChangeCalls (snd (handleClearVscodeConfig t r st)) = onChangeCalls st"
proof -
  have "settings (on_user u st) = settings st"
    by (cases u) (simp_all add: onChange_def begin_state split: option.splits prod.splits)
  moreover have "settings (on_settle t r st) = settings st"
    and "onChangeCalls (on_settle t r st) = onChangeCalls st"
    by (cases r; simp add: on_settle_def resume_simps split: sum.splits)+
  moreover have "settings (snd (handleClearVscodeConfig t r st)) = settings st"
    and "onChangeCalls (snd (handleClearVscodeConfig t r st)) = onChangeCalls st"
    by (cases r; simp add: whole_resolved whole_rejected split: sum.splits)+
  moreover have "onChangeCalls (on_user UserClick st) = onChangeCalls st"
    by (simp add: begin_state)
  ultimately show ?thesis by simp
qed

text \<open>
  C10, as the claim states it, fails: a stored empty string is displayed as the empty
  string, and entering the empty string gives \<^verbatim>\<open>undefined\<close>, not the stored value.
\<close>

theorem path_round_trip_counterexample:
  "pathOnChange (pathValue (Some [])) \<noteq> [(''vscodeSettingsPath'', pathField (Some []))]"
  by (simp add: pathOnChange_def pathValue_def)

text \<open>
  C10, amended. An absent path is displayed as the empty string and the empty string
  entered is mapped to \<^verbatim>\<open>undefined\<close>; displaying a stored path and entering the displayed
  text again gives the stored value for every path that is absent or a non-empty string,
  while a stored empty string comes back as \<^verbatim>\<open>undefined\<close>.
\<close>

theorem path_round_trip:
  "pathValue None = []
   \<and> pathOnChange [] = [(''vscodeSettingsPath'', JUndefined)]
   \<and> (p \<noteq> Some [] \<longrightarrow>
        pathOnChange (pathValue p) = [(''vscodeSettingsPath'', pathField p)])
   \<and> pathOnChange (pathValue (Some [])) = [(''vscodeSettingsPath'', JUndefined)]"
  by (cases p) (simp_all add: pathOnChange_def pathValue_def)

theorem path_round_trip_witness:
  "Some ''/tmp/settings.json'' \<noteq> Some []
   \<and> pathOnChange (pathValue (Some ''/tmp/settings.json'')) =
       [(''vscodeSettingsPath'', JString ''/tmp/settings.json'')]
   \<and> pathOnChange (pathValue None) = [(''vscodeSettingsPath'', JUndefined)]"
proof -
  have a: "Some ''/tmp/settings.json'' \<noteq> Some []"
    and b: "(None :: string option) \<noteq> Some []"
    by simp_all
  from path_round_trip [of "Some ''/tmp/settings.json''"] path_round_trip [of None] a b
  show ?thesis by simp
qed

end
